theory Spec2Isabelle
  imports Main "HOL-Library.Word" "HOL-Library.Sublist"
begin

section \<open>The platform: files, descriptors, mappings, heap arrays\<close>

text \<open>
  \<^verbatim>\<open>allocation.h\<close> talks to the operating system and to the C++ runtime only:
  \<^verbatim>\<open>open\<close>, \<^verbatim>\<open>fstat\<close>, \<^verbatim>\<open>mmap\<close>, \<^verbatim>\<open>fopen\<close>, \<^verbatim>\<open>fclose\<close> (through the deleter of a
  \<^verbatim>\<open>unique_ptr\<close>), \<^verbatim>\<open>fread\<close>, \<^verbatim>\<open>new char[n]\<close> and \<^verbatim>\<open>delete[]\<close>. Their effect is
  written out as functions on an explicit \<open>world\<close>. Pointers are 64-bit words,
  \<^verbatim>\<open>nullptr\<close> is \<open>0\<close> and \<^verbatim>\<open>MAP_FAILED\<close> is the \<^verbatim>\<open>((void *) -1)\<close> of
  \<^verbatim>\<open><sys/mman.h>\<close>. Sizes (\<^verbatim>\<open>size_t\<close>, \<^verbatim>\<open>off_t\<close>) are natural numbers: on the
  LP64 platforms the header is written for both are 64 bits wide and no
  file reaches \<open>2^63\<close> bytes, so \<^verbatim>\<open>buffer_size_bytes_ = sb.st_size\<close> loses nothing.
\<close>

type_synonym path = string
type_synonym byte = "8 word"
type_synonym addr = "64 word"

definition nullptr :: addr where
  "nullptr = 0"

definition MAP_FAILED :: addr where
  "MAP_FAILED = - 1"

text \<open>
  The world: the files by path, the open descriptors (each with the bytes of
  the file it was opened on), the established mappings and the live heap
  arrays by start address, and what the error sink has received so far, in
  order, as pairs of message template and substituted value.
\<close>

record world =
  files :: "path \<rightharpoonup> byte list"
  fd_table :: "nat \<rightharpoonup> byte list"
  mappings :: "addr \<rightharpoonup> byte list"
  heap :: "addr \<rightharpoonup> byte list"
  reported :: "(string \<times> string) list"

text \<open>
  What the platform answers during one construction, where the answer is
  not determined by the world:
  \<^item> \<open>open_grant\<close>: the descriptor \<^verbatim>\<open>open\<close>/\<^verbatim>\<open>fopen\<close> hands out for an existing
    file, \<open>None\<close> when it refuses (\<^verbatim>\<open>EACCES\<close>, \<^verbatim>\<open>EMFILE\<close>, ...);
  \<^item> \<open>fstat_ok\<close>: whether \<^verbatim>\<open>fstat\<close> succeeds on an open descriptor, and
    \<open>stale_st_size\<close>: what the uninitialised \<^verbatim>\<open>sb.st_size\<close> holds when it does not;
  \<^item> \<open>mmap_ret\<close>: the address \<^verbatim>\<open>mmap\<close> returns, \<open>MAP_FAILED\<close> when it refuses;
  \<^item> \<open>new_ret\<close>: the pointer \<^verbatim>\<open>new char[n]\<close> returns, \<open>None\<close> when it throws
    \<^verbatim>\<open>std::bad_alloc\<close>; \<open>junk\<close>: the indeterminate content of the fresh array;
  \<^item> \<open>fread_limit\<close>: how many bytes the stream delivers before \<^verbatim>\<open>fread\<close>
    stops early.
\<close>

record os =
  open_grant :: "nat option"
  fstat_ok :: bool
  stale_st_size :: nat
  mmap_ret :: addr
  new_ret :: "addr option"
  junk :: byte
  fread_limit :: nat

text \<open>\<^verbatim>\<open>open(filename, O_RDONLY)\<close>: the new descriptor, or \<open>-1\<close>.\<close>

definition sys_open :: "os \<Rightarrow> world \<Rightarrow> path \<Rightarrow> world \<times> int" where
  "sys_open env w filename =
     (case files w filename of
        None \<Rightarrow> (w, - 1)
      | Some bs \<Rightarrow>
          (case open_grant env of
             None \<Rightarrow> (w, - 1)
           | Some fd \<Rightarrow> (w\<lparr>fd_table := (fd_table w)(fd \<mapsto> bs)\<rparr>, int fd)))"

text \<open>
  \<^verbatim>\<open>fstat(fd, &sb)\<close>: the return code and the \<^verbatim>\<open>sb.st_size\<close> found afterwards.
  \<^verbatim>\<open>sb\<close> is a fresh local in both callers, so a failing call leaves
  \<open>stale_st_size\<close> there.
\<close>

definition sys_fstat :: "os \<Rightarrow> world \<Rightarrow> int \<Rightarrow> int \<times> nat" where
  "sys_fstat env w fd =
     (if fd < 0 then (- 1, stale_st_size env)
      else case fd_table w (nat fd) of
        None \<Rightarrow> (- 1, stale_st_size env)
      | Some bs \<Rightarrow>
          if fstat_ok env then (0, length bs) else (- 1, stale_st_size env))"

text \<open>
  \<^verbatim>\<open>mmap(nullptr, len, PROT_READ, MAP_SHARED, fd, 0)\<close>: a zero length is
  refused (\<^verbatim>\<open>EINVAL\<close>); an established mapping shows the first \<open>len\<close> bytes of
  the file (the file-backed part when \<open>len\<close> exceeds the file).
\<close>

definition sys_mmap :: "os \<Rightarrow> world \<Rightarrow> nat \<Rightarrow> int \<Rightarrow> world \<times> addr" where
  "sys_mmap env w len fd =
     (if len = 0 \<or> fd < 0 \<or> mmap_ret env = MAP_FAILED then (w, MAP_FAILED)
      else case fd_table w (nat fd) of
        None \<Rightarrow> (w, MAP_FAILED)
      | Some bs \<Rightarrow>
          (w\<lparr>mappings := (mappings w)(mmap_ret env \<mapsto> take len bs)\<rparr>, mmap_ret env))"

text \<open>
  \<^verbatim>\<open>fopen(filename, "rb")\<close>: a stream over a new descriptor, or \<^verbatim>\<open>NULL\<close>
  (\<open>None\<close>). A stream is identified with its descriptor, so \<^verbatim>\<open>fileno\<close> is
  the identity; \<^verbatim>\<open>fclose\<close> closes the descriptor.
\<close>

definition sys_fopen :: "os \<Rightarrow> world \<Rightarrow> path \<Rightarrow> world \<times> nat option" where
  "sys_fopen env w filename =
     (case files w filename of
        None \<Rightarrow> (w, None)
      | Some bs \<Rightarrow>
          (case open_grant env of
             None \<Rightarrow> (w, None)
           | Some fd \<Rightarrow> (w\<lparr>fd_table := (fd_table w)(fd \<mapsto> bs)\<rparr>, Some fd)))"

definition fileno :: "nat \<Rightarrow> int" where
  "fileno file = int file"

definition sys_fclose :: "world \<Rightarrow> nat \<Rightarrow> world" where
  "sys_fclose w file = w\<lparr>fd_table := (fd_table w)(file := None)\<rparr>"

text \<open>
  \<^verbatim>\<open>new char[n]\<close>: \<open>None\<close> is \<^verbatim>\<open>std::bad_alloc\<close> thrown. A returned null
  pointer (an allocator that does not throw) allocates nothing; the source
  tests for it.
\<close>

definition op_new_array :: "os \<Rightarrow> world \<Rightarrow> nat \<Rightarrow> (world \<times> addr) option" where
  "op_new_array env w n =
     (case new_ret env of
        None \<Rightarrow> None
      | Some a \<Rightarrow>
          if a = nullptr then Some (w, nullptr)
          else Some (w\<lparr>heap := (heap w)(a \<mapsto> replicate n (junk env))\<rparr>, a))"

text \<open>\<^verbatim>\<open>delete[] p\<close>, as the destructor of a \<^verbatim>\<open>unique_ptr\<close> runs it: nothing for null.\<close>

definition op_delete_array :: "world \<Rightarrow> addr \<Rightarrow> world" where
  "op_delete_array w p =
     (if p = nullptr then w else w\<lparr>heap := (heap w)(p := None)\<rparr>)"

text \<open>
  \<^verbatim>\<open>fread(buf, sizeof(char), n, file)\<close> on a stream just opened: the bytes
  delivered overwrite the front of the array at \<open>buf\<close>; the count is returned.
\<close>

definition sys_fread :: "os \<Rightarrow> world \<Rightarrow> addr \<Rightarrow> nat \<Rightarrow> nat \<Rightarrow> world \<times> nat" where
  "sys_fread env w buf n file =
     (case fd_table w file of
        None \<Rightarrow> (w, 0)
      | Some bs \<Rightarrow>
          (case heap w buf of
             None \<Rightarrow> (w, 0)
           | Some old \<Rightarrow>
               (let k = min n (min (fread_limit env) (length bs))
                in (w\<lparr>heap := (heap w)(buf \<mapsto> take k bs @ drop k old)\<rparr>, k))))"

section \<open>The error sink\<close>

text \<open>
  Modelled from the spec: \<^verbatim>\<open>ErrorReporter\<close> (\<^verbatim>\<open>error_reporter.h\<close>) is not among
  the sources. The spec gives it one operation, "report a formatted
  diagnostic message", taking a message template and substitution values;
  the sink keeps what it was given. \<open>format_message\<close> puts the value in the
  place of the template's \<^verbatim>\<open>%s\<close>, the way the spec spells the messages out
  (\<^verbatim>\<open>"Could not open '<path>'."\<close>).
\<close>

definition Report :: "world \<Rightarrow> string \<Rightarrow> string \<Rightarrow> world" where
  "Report w format arg = w\<lparr>reported := reported w @ [(format, arg)]\<rparr>"

fun format_s :: "string \<Rightarrow> string \<Rightarrow> string" where
  "format_s [] arg = []"
| "format_s [c] arg = [c]"
| "format_s (c # d # cs) arg =
     (if c = CHR ''%'' \<and> d = CHR ''s'' then arg @ cs else c # format_s (d # cs) arg)"

definition format_message :: "string \<times> string \<Rightarrow> string" where
  "format_message r = format_s (fst r) (snd r)"

section \<open>MMAPAllocation\<close>

text \<open>
  The base class \<^verbatim>\<open>Allocation\<close> holds the pointer to the error sink only; the
  sink is part of the world here. The data members of \<^verbatim>\<open>MMAPAllocation\<close>,
  without the trailing underscore of the source: \<^verbatim>\<open>mmap_fd_\<close>,
  \<^verbatim>\<open>mmapped_buffer_\<close> and \<^verbatim>\<open>buffer_size_bytes_\<close> (a name both classes use, so
  it is \<open>mmap_buffer_size_bytes\<close> here and \<open>copy_buffer_size_bytes\<close> below).
\<close>

record MMAPAllocation =
  mmap_fd :: int
  mmapped_buffer :: addr
  mmap_buffer_size_bytes :: nat

text \<open>
  The constructor. The member initialisers give \<open>mmap_fd = -1\<close>,
  \<open>mmapped_buffer = MAP_FAILED\<close> and a size of \<open>0\<close>; the return code of
  \<^verbatim>\<open>fstat\<close> is not looked at.
\<close>

definition MMAPAllocation_ctor :: "os \<Rightarrow> world \<Rightarrow> path \<Rightarrow> world \<times> MMAPAllocation" where
  "MMAPAllocation_ctor env w filename =
     (let (w1, fd) = sys_open env w filename in
      if fd = - 1 then
        (Report w1 ''Could not open '%s'.'' filename,
         \<lparr>mmap_fd = - 1, mmapped_buffer = MAP_FAILED, mmap_buffer_size_bytes = 0\<rparr>)
      else
        let (rc, st_size) = sys_fstat env w1 fd;
            (w2, p) = sys_mmap env w1 st_size fd
        in if p = MAP_FAILED then
             (Report w2 ''Mmap of '%s' failed.'' filename,
              \<lparr>mmap_fd = fd, mmapped_buffer = MAP_FAILED, mmap_buffer_size_bytes = st_size\<rparr>)
           else
             (w2, \<lparr>mmap_fd = fd, mmapped_buffer = p, mmap_buffer_size_bytes = st_size\<rparr>))"

definition MMAPAllocation_base :: "MMAPAllocation \<Rightarrow> addr" where
  "MMAPAllocation_base a = mmapped_buffer a"

definition MMAPAllocation_bytes :: "MMAPAllocation \<Rightarrow> nat" where
  "MMAPAllocation_bytes a = mmap_buffer_size_bytes a"

definition MMAPAllocation_valid :: "MMAPAllocation \<Rightarrow> bool" where
  "MMAPAllocation_valid a = (mmapped_buffer a \<noteq> MAP_FAILED)"

definition IsSupported :: bool where
  "IsSupported = True"

text \<open>
  Destruction. The class declares no destructor (the declaration is
  commented out), its members are an \<^verbatim>\<open>int\<close>, a pointer and a \<^verbatim>\<open>size_t\<close>, and
  \<^verbatim>\<open>~Allocation()\<close> is empty: the world is left as it is.
\<close>

definition MMAPAllocation_dtor :: "world \<Rightarrow> MMAPAllocation \<Rightarrow> world" where
  "MMAPAllocation_dtor w a = w"

section \<open>FileCopyAllocation\<close>

text \<open>The data members: \<^verbatim>\<open>copied_buffer_\<close> (a \<^verbatim>\<open>unique_ptr\<close>) and \<^verbatim>\<open>buffer_size_bytes_\<close>.\<close>

record FileCopyAllocation =
  copied_buffer :: addr
  copy_buffer_size_bytes :: nat

datatype exn = bad_alloc

text \<open>
  The constructor. On every way out the locals are destroyed in reverse
  order: \<^verbatim>\<open>buffer\<close> (its array deleted unless released) and then \<^verbatim>\<open>file\<close>
  (\<^verbatim>\<open>fclose\<close>, when the stream is not null); an exception thrown by \<^verbatim>\<open>new\<close>
  unwinds \<^verbatim>\<open>file\<close> and leaves no object behind (\<open>Inl\<close>).
\<close>

definition FileCopyAllocation_ctor ::
    "os \<Rightarrow> world \<Rightarrow> path \<Rightarrow> world \<times> (exn + FileCopyAllocation)" where
  "FileCopyAllocation_ctor env w filename =
     (let (w1, file) = sys_fopen env w filename in
      case file of
        None \<Rightarrow>
          (Report w1 ''Could not open '%s'.'' filename,
           Inr \<lparr>copied_buffer = nullptr, copy_buffer_size_bytes = 0\<rparr>)
      | Some f \<Rightarrow>
          let (rc, st_size) = sys_fstat env w1 (fileno f) in
          if rc \<noteq> 0 then
            (sys_fclose (Report w1 ''Failed to get file size of '%s'.'' filename) f,
             Inr \<lparr>copied_buffer = nullptr, copy_buffer_size_bytes = 0\<rparr>)
          else
            case op_new_array env w1 st_size of
              None \<Rightarrow> (sys_fclose w1 f, Inl bad_alloc)
            | Some (w2, buffer) \<Rightarrow>
                if buffer = nullptr then
                  (sys_fclose
                     (Report w2 ''Malloc of buffer to hold copy of '%s' failed.'' filename) f,
                   Inr \<lparr>copied_buffer = nullptr, copy_buffer_size_bytes = st_size\<rparr>)
                else
                  let (w3, bytes_read) = sys_fread env w2 buffer st_size f in
                  if bytes_read \<noteq> st_size then
                    (sys_fclose
                       (op_delete_array
                          (Report w3 ''Read of '%s' failed (too few bytes read).'' filename)
                          buffer) f,
                     Inr \<lparr>copied_buffer = nullptr, copy_buffer_size_bytes = st_size\<rparr>)
                  else
                    (sys_fclose w3 f,
                     Inr \<lparr>copied_buffer = buffer, copy_buffer_size_bytes = st_size\<rparr>))"

definition FileCopyAllocation_base :: "FileCopyAllocation \<Rightarrow> addr" where
  "FileCopyAllocation_base a = copied_buffer a"

definition FileCopyAllocation_bytes :: "FileCopyAllocation \<Rightarrow> nat" where
  "FileCopyAllocation_bytes a = copy_buffer_size_bytes a"

definition FileCopyAllocation_valid :: "FileCopyAllocation \<Rightarrow> bool" where
  "FileCopyAllocation_valid a = (copied_buffer a \<noteq> nullptr)"

text \<open>\<^verbatim>\<open>~FileCopyAllocation(){}\<close>: the \<^verbatim>\<open>unique_ptr\<close> member deletes its array.\<close>

definition FileCopyAllocation_dtor :: "world \<Rightarrow> FileCopyAllocation \<Rightarrow> world" where
  "FileCopyAllocation_dtor w a = op_delete_array w (copied_buffer a)"

section \<open>Concrete scenarios\<close>

text \<open>
  A disk with a three-byte \<^verbatim>\<open>model.bin\<close> and an empty \<^verbatim>\<open>empty.bin\<close>, nothing
  open, mapped or allocated, nothing reported; and a platform on which every
  call succeeds. The failing platforms are updates of \<open>healthy\<close>.
\<close>

definition disk :: world where
  "disk = \<lparr>files = [''model.bin'' \<mapsto> [1, 2, 3], ''empty.bin'' \<mapsto> []],
            fd_table = Map.empty, mappings = Map.empty, heap = Map.empty, reported = []\<rparr>"

definition healthy :: os where
  "healthy = \<lparr>open_grant = Some 3, fstat_ok = True, stale_st_size = 7, mmap_ret = 4096,
               new_ret = Some 8192, junk = 0, fread_limit = 4096\<rparr>"

section \<open>The ways through the constructors\<close>

lemmas platform_defs =
  sys_open_def sys_fstat_def sys_mmap_def sys_fopen_def fileno_def sys_fclose_def
  op_new_array_def op_delete_array_def sys_fread_def Report_def

lemmas accessor_defs =
  MMAPAllocation_base_def MMAPAllocation_bytes_def MMAPAllocation_valid_def
  FileCopyAllocation_base_def FileCopyAllocation_bytes_def FileCopyAllocation_valid_def

lemmas scenario_defs = disk_def healthy_def nullptr_def MAP_FAILED_def

lemma sys_open_refused:
  "files w p = None \<or> open_grant env = None \<Longrightarrow> sys_open env w p = (w, - 1)"
  by (auto simp: sys_open_def split: option.splits)

lemma sys_fopen_refused:
  "files w p = None \<or> open_grant env = None \<Longrightarrow> sys_fopen env w p = (w, None)"
  by (auto simp: sys_fopen_def split: option.splits)

lemma sys_open_granted:
  "files w p = Some bs \<Longrightarrow> open_grant env = Some f \<Longrightarrow>
   sys_open env w p = (w\<lparr>fd_table := (fd_table w)(f \<mapsto> bs)\<rparr>, int f)"
  by (simp add: sys_open_def)

lemma sys_fopen_granted:
  "files w p = Some bs \<Longrightarrow> open_grant env = Some f \<Longrightarrow>
   sys_fopen env w p = (w\<lparr>fd_table := (fd_table w)(f \<mapsto> bs)\<rparr>, Some f)"
  by (simp add: sys_fopen_def)

text \<open>The five ways out of the copying constructor once the file is open.\<close>

lemma copy_ctor_fstat_failed:
  assumes "files w p = Some bs" "open_grant env = Some f" "\<not> fstat_ok env"
  shows "FileCopyAllocation_ctor env w p =
     (sys_fclose (Report (w\<lparr>fd_table := (fd_table w)(f \<mapsto> bs)\<rparr>)
                     ''Failed to get file size of '%s'.'' p) f,
      Inr \<lparr>copied_buffer = nullptr, copy_buffer_size_bytes = 0\<rparr>)"
  using assms
  by (simp add: FileCopyAllocation_ctor_def sys_fopen_granted sys_fstat_def fileno_def)

lemma copy_ctor_new_threw:
  assumes "files w p = Some bs" "open_grant env = Some f" "fstat_ok env" "new_ret env = None"
  shows "FileCopyAllocation_ctor env w p =
     (sys_fclose (w\<lparr>fd_table := (fd_table w)(f \<mapsto> bs)\<rparr>) f, Inl bad_alloc)"
  using assms
  by (simp add: FileCopyAllocation_ctor_def sys_fopen_granted sys_fstat_def fileno_def
      op_new_array_def)

lemma copy_ctor_new_null:
  assumes "files w p = Some bs" "open_grant env = Some f" "fstat_ok env"
    "new_ret env = Some nullptr"
  shows "FileCopyAllocation_ctor env w p =
     (sys_fclose (Report (w\<lparr>fd_table := (fd_table w)(f \<mapsto> bs)\<rparr>)
                     ''Malloc of buffer to hold copy of '%s' failed.'' p) f,
      Inr \<lparr>copied_buffer = nullptr, copy_buffer_size_bytes = length bs\<rparr>)"
  using assms
  by (simp add: FileCopyAllocation_ctor_def sys_fopen_granted sys_fstat_def fileno_def
      op_new_array_def)

lemma copy_ctor_short_read:
  assumes "files w p = Some bs" "open_grant env = Some f" "fstat_ok env"
    "new_ret env = Some buffer" "buffer \<noteq> nullptr" "fread_limit env < length bs"
  shows "FileCopyAllocation_ctor env w p =
     (sys_fclose
        (op_delete_array
           (Report
              (w\<lparr>fd_table := (fd_table w)(f \<mapsto> bs),
                 heap := (heap w)(buffer \<mapsto>
                   take (fread_limit env) bs @ replicate (length bs - fread_limit env) (junk env))\<rparr>)
              ''Read of '%s' failed (too few bytes read).'' p)
           buffer) f,
      Inr \<lparr>copied_buffer = nullptr, copy_buffer_size_bytes = length bs\<rparr>)"
  using assms
  by (simp add: FileCopyAllocation_ctor_def sys_fopen_granted sys_fstat_def fileno_def
      op_new_array_def sys_fread_def min_def Let_def)

lemma copy_ctor_success:
  assumes "files w p = Some bs" "open_grant env = Some f" "fstat_ok env"
    "new_ret env = Some buffer" "buffer \<noteq> nullptr" "length bs \<le> fread_limit env"
  shows "FileCopyAllocation_ctor env w p =
     (sys_fclose
        (w\<lparr>fd_table := (fd_table w)(f \<mapsto> bs), heap := (heap w)(buffer \<mapsto> bs)\<rparr>) f,
      Inr \<lparr>copied_buffer = buffer, copy_buffer_size_bytes = length bs\<rparr>)"
  using assms
  by (simp add: FileCopyAllocation_ctor_def sys_fopen_granted sys_fstat_def fileno_def
      op_new_array_def sys_fread_def min_def Let_def)

lemma copy_ctor_unopenable:
  assumes "files w p = None \<or> open_grant env = None"
  shows "FileCopyAllocation_ctor env w p =
      (Report w ''Could not open '%s'.'' p,
       Inr \<lparr>copied_buffer = nullptr, copy_buffer_size_bytes = 0\<rparr>)"
  by (simp add: FileCopyAllocation_ctor_def sys_fopen_refused [OF assms])

text \<open>The three ways out of the mapping constructor.\<close>

lemma mmap_ctor_unopenable:
  assumes "files w p = None \<or> open_grant env = None"
  shows "MMAPAllocation_ctor env w p =
      (Report w ''Could not open '%s'.'' p,
       \<lparr>mmap_fd = - 1, mmapped_buffer = MAP_FAILED, mmap_buffer_size_bytes = 0\<rparr>)"
  by (simp add: MMAPAllocation_ctor_def sys_open_refused [OF assms])

lemma mmap_ctor_map_failed:
  assumes "files w p = Some bs" "open_grant env = Some f"
    "(if fstat_ok env then length bs else stale_st_size env) = 0 \<or> mmap_ret env = MAP_FAILED"
  shows "MMAPAllocation_ctor env w p =
      (Report (w\<lparr>fd_table := (fd_table w)(f \<mapsto> bs)\<rparr>) ''Mmap of '%s' failed.'' p,
       \<lparr>mmap_fd = int f, mmapped_buffer = MAP_FAILED,
          mmap_buffer_size_bytes = (if fstat_ok env then length bs else stale_st_size env)\<rparr>)"
  using assms
  by (auto simp: MMAPAllocation_ctor_def sys_open_granted sys_fstat_def sys_mmap_def
      split: if_splits)

lemma mmap_ctor_success:
  assumes "files w p = Some bs" "open_grant env = Some f"
    "(if fstat_ok env then length bs else stale_st_size env) \<noteq> 0"
    "mmap_ret env \<noteq> MAP_FAILED"
  shows "MMAPAllocation_ctor env w p =
      (w\<lparr>fd_table := (fd_table w)(f \<mapsto> bs),
         mappings := (mappings w)(mmap_ret env \<mapsto>
           take (if fstat_ok env then length bs else stale_st_size env) bs)\<rparr>,
       \<lparr>mmap_fd = int f, mmapped_buffer = mmap_ret env,
          mmap_buffer_size_bytes = (if fstat_ok env then length bs else stale_st_size env)\<rparr>)"
  using assms
  by (auto simp: MMAPAllocation_ctor_def sys_open_granted sys_fstat_def sys_mmap_def
      split: if_splits)


section \<open>Round trip\<close>

text \<open>
  What holds of the round trip: the copying variant always, the mapping
  variant when \<^verbatim>\<open>fstat\<close> succeeded.
\<close>

lemma copy_round_trip:
  assumes "files w p = Some bs"
    and "FileCopyAllocation_ctor env w p = (w', Inr a)"
    and "FileCopyAllocation_valid a"
  shows "FileCopyAllocation_bytes a = length bs
       \<and> heap w' (FileCopyAllocation_base a) = Some bs"
proof (cases "open_grant env")
  case None
  with assms copy_ctor_unopenable [of w p env] show ?thesis
    by (auto simp: FileCopyAllocation_valid_def)
next
  case (Some f)
  note f = this
  show ?thesis
  proof (cases "fstat_ok env")
    case False
    with assms f copy_ctor_fstat_failed [of w p bs env f] show ?thesis
      by (auto simp: FileCopyAllocation_valid_def)
  next
    case True
    note ok = this
    show ?thesis
    proof (cases "new_ret env")
      case None
      with assms f ok copy_ctor_new_threw [of w p bs env f] show ?thesis by simp
    next
      case (Some buffer)
      note b = this
      show ?thesis
      proof (cases "buffer = nullptr")
        case True
        with assms f ok b copy_ctor_new_null [of w p bs env f] show ?thesis
          by (auto simp: FileCopyAllocation_valid_def)
      next
        case False
        note nn = this
        show ?thesis
        proof (cases "fread_limit env < length bs")
          case True
          with assms f ok b nn copy_ctor_short_read [of w p bs env f buffer] show ?thesis
            by (auto simp: FileCopyAllocation_valid_def)
        next
          case False
          then have "length bs \<le> fread_limit env" by simp
          with assms f ok b nn copy_ctor_success [of w p bs env f buffer] show ?thesis
            by (auto simp: accessor_defs sys_fclose_def)
        qed
      qed
    qed
  qed
qed

lemma mmap_round_trip:
  assumes "files w p = Some bs" and "fstat_ok env"
    and "MMAPAllocation_ctor env w p = (w', a)"
    and "MMAPAllocation_valid a"
  shows "MMAPAllocation_bytes a = length bs
       \<and> mappings w' (MMAPAllocation_base a) = Some bs"
proof (cases "open_grant env")
  case None
  with assms mmap_ctor_unopenable [of w p env] show ?thesis
    by (auto simp: MMAPAllocation_valid_def)
next
  case (Some f)
  note f = this
  show ?thesis
  proof (cases "length bs = 0 \<or> mmap_ret env = MAP_FAILED")
    case True
    with assms f mmap_ctor_map_failed [of w p bs env f] show ?thesis
      by (auto simp: MMAPAllocation_valid_def)
  next
    case False
    with assms f mmap_ctor_success [of w p bs env f] show ?thesis
      by (auto simp: accessor_defs)
  qed
qed

section \<open>What the constructors report\<close>

text \<open>
  Every object that comes out invalid has put exactly one message into the
  sink, a valid one none; an exception leaves the sink as it was.
\<close>

lemma mmap_ctor_reports:
  assumes "MMAPAllocation_ctor env w p = (w', a)"
  shows "(MMAPAllocation_valid a \<and> reported w' = reported w)
       \<or> (\<not> MMAPAllocation_valid a
           \<and> (reported w' = reported w @ [(''Could not open '%s'.'', p)]
              \<or> reported w' = reported w @ [(''Mmap of '%s' failed.'', p)]))"
  using assms
  by (auto simp: MMAPAllocation_ctor_def platform_defs accessor_defs
      split: option.splits if_splits prod.splits)

lemma copy_ctor_reports:
  assumes "FileCopyAllocation_ctor env w p = (w', r)"
  shows "(case r of
            Inl e \<Rightarrow> reported w' = reported w
          | Inr a \<Rightarrow>
              (FileCopyAllocation_valid a \<and> reported w' = reported w)
              \<or> (\<not> FileCopyAllocation_valid a
                  \<and> (\<exists>format \<in> {''Could not open '%s'.'',
                                   ''Failed to get file size of '%s'.'',
                                   ''Malloc of buffer to hold copy of '%s' failed.'',
                                   ''Read of '%s' failed (too few bytes read).''}.
                        reported w' = reported w @ [(format, p)])))"
  using assms
  by (auto simp: FileCopyAllocation_ctor_def platform_defs accessor_defs Let_def
      split: option.splits if_splits prod.splits)

section \<open>The properties\<close>

text \<open>
  Claim C1: every valid allocation has \<^verbatim>\<open>bytes()\<close> equal to the length of the
  file, and \<^verbatim>\<open>bytes()\<close> bytes from \<^verbatim>\<open>base()\<close> are the file's contents. The
  mapping constructor does not look at what \<^verbatim>\<open>fstat\<close> returns (the copying one
  does): over the three-byte \<^verbatim>\<open>model.bin\<close>, when \<^verbatim>\<open>fstat\<close> fails, leaves \<open>7\<close> in
  \<^verbatim>\<open>sb.st_size\<close>, and \<^verbatim>\<open>mmap\<close> succeeds, the object is valid, \<^verbatim>\<open>bytes()\<close> is \<open>7\<close>
  and the region shows the three bytes the file has.
\<close>

theorem mmap_unchecked_fstat_wrong_size:
  "files disk ''model.bin'' = Some [1, 2, 3]
   \<and> MMAPAllocation_valid
        (snd (MMAPAllocation_ctor (healthy\<lparr>fstat_ok := False\<rparr>) disk ''model.bin''))
   \<and> MMAPAllocation_bytes
        (snd (MMAPAllocation_ctor (healthy\<lparr>fstat_ok := False\<rparr>) disk ''model.bin'')) = 7
   \<and> mappings (fst (MMAPAllocation_ctor (healthy\<lparr>fstat_ok := False\<rparr>) disk ''model.bin''))
        (MMAPAllocation_base
           (snd (MMAPAllocation_ctor (healthy\<lparr>fstat_ok := False\<rparr>) disk ''model.bin'')))
       = Some [1, 2, 3]"
  by (simp add: MMAPAllocation_ctor_def platform_defs accessor_defs scenario_defs)

text \<open>
  Claim C2: every failure makes \<^verbatim>\<open>valid()\<close> false and puts one message into
  the sink, and no exception leaves the constructor. Two failures are not
  captured. A failing \<^verbatim>\<open>fstat\<close> in the mapping constructor goes unnoticed: the
  object is valid and nothing is reported. A throwing \<^verbatim>\<open>new char[n]\<close> in the
  copying constructor leaves it as \<^verbatim>\<open>std::bad_alloc\<close>, before the test
  \<^verbatim>\<open>if (!buffer)\<close> is reached: no object, nothing reported.
\<close>

theorem failures_not_captured:
  "MMAPAllocation_valid
     (snd (MMAPAllocation_ctor (healthy\<lparr>fstat_ok := False\<rparr>) disk ''model.bin''))
   \<and> reported (fst (MMAPAllocation_ctor (healthy\<lparr>fstat_ok := False\<rparr>) disk ''model.bin'')) = []
   \<and> snd (FileCopyAllocation_ctor (healthy\<lparr>new_ret := None\<rparr>) disk ''model.bin'')
       = Inl bad_alloc
   \<and> reported (fst (FileCopyAllocation_ctor (healthy\<lparr>new_ret := None\<rparr>) disk ''model.bin''))
       = []"
  by (simp add: MMAPAllocation_ctor_def FileCopyAllocation_ctor_def platform_defs accessor_defs
      scenario_defs)

text \<open>
  Claim C3: for a path that cannot be opened (no such file, or the platform
  refuses), constructing either variant yields an invalid object and adds
  exactly one report to the sink; the report carries the path and reads
  \<^verbatim>\<open>Could not open '<path>'.\<close>
\<close>

theorem unopenable_path_reports_once:
  assumes "files w filename = None \<or> open_grant env = None"
  shows "snd (MMAPAllocation_ctor env w filename)
           = \<lparr>mmap_fd = - 1, mmapped_buffer = MAP_FAILED, mmap_buffer_size_bytes = 0\<rparr>
       \<and> \<not> MMAPAllocation_valid (snd (MMAPAllocation_ctor env w filename))
       \<and> reported (fst (MMAPAllocation_ctor env w filename))
           = reported w @ [(''Could not open '%s'.'', filename)]
       \<and> (\<exists>a. snd (FileCopyAllocation_ctor env w filename) = Inr a
              \<and> \<not> FileCopyAllocation_valid a)
       \<and> reported (fst (FileCopyAllocation_ctor env w filename))
           = reported w @ [(''Could not open '%s'.'', filename)]
       \<and> format_message (''Could not open '%s'.'', filename)
           = ''Could not open '' @ [CHR 0x27] @ filename @ [CHR 0x27] @ ''.''
       \<and> sublist filename (format_message (''Could not open '%s'.'', filename))"
proof -
  have "format_message (''Could not open '%s'.'', filename)
      = (''Could not open '' @ [CHR 0x27]) @ filename @ ([CHR 0x27] @ ''.'')"
    by (simp add: format_message_def)
  then have "sublist filename (format_message (''Could not open '%s'.'', filename))"
    by (simp only: sublist_appendI)
  then show ?thesis
    by (simp add: mmap_ctor_unopenable [OF assms] copy_ctor_unopenable [OF assms]
        Report_def accessor_defs format_message_def)
qed

theorem unopenable_path_reports_once_witness:
  "files disk ''missing.bin'' = None
   \<and> snd (MMAPAllocation_ctor healthy disk ''missing.bin'')
       = \<lparr>mmap_fd = - 1, mmapped_buffer = MAP_FAILED, mmap_buffer_size_bytes = 0\<rparr>
   \<and> \<not> MMAPAllocation_valid (snd (MMAPAllocation_ctor healthy disk ''missing.bin''))
   \<and> reported (fst (MMAPAllocation_ctor healthy disk ''missing.bin''))
       = [(''Could not open '%s'.'', ''missing.bin'')]
   \<and> snd (FileCopyAllocation_ctor healthy disk ''missing.bin'')
       = Inr \<lparr>copied_buffer = nullptr, copy_buffer_size_bytes = 0\<rparr>
   \<and> reported (fst (FileCopyAllocation_ctor healthy disk ''missing.bin''))
       = [(''Could not open '%s'.'', ''missing.bin'')]
   \<and> format_message (''Could not open '%s'.'', ''missing.bin'')
       = ''Could not open 'missing.bin'.''"
proof -
  have h: "files disk ''missing.bin'' = None \<or> open_grant healthy = None"
    by (simp add: disk_def)
  have c: "snd (FileCopyAllocation_ctor healthy disk ''missing.bin'')
       = Inr \<lparr>copied_buffer = nullptr, copy_buffer_size_bytes = 0\<rparr>"
    by (simp add: copy_ctor_unopenable [OF h])
  show ?thesis
    using unopenable_path_reports_once [OF h] c by (simp add: disk_def accessor_defs)
qed

text \<open>
  Claim C4: when the copying constructor reaches \<^verbatim>\<open>fread\<close> (file open, size
  known, array allocated) and the stream delivers fewer bytes than the size
  of the file, exactly one report \<^verbatim>\<open>Read of '<path>' failed (too few bytes read).\<close>
  is added, the object is invalid, \<^verbatim>\<open>base()\<close> is the null pointer and not
  the array, and the array is gone from the heap.
\<close>

theorem short_read_discards_buffer:
  assumes "files w filename = Some bs" and "open_grant env = Some f" and "fstat_ok env"
    and "new_ret env = Some buffer" and "buffer \<noteq> nullptr"
    and "fread_limit env < length bs"
  shows "(\<exists>a. snd (FileCopyAllocation_ctor env w filename) = Inr a
            \<and> \<not> FileCopyAllocation_valid a
            \<and> FileCopyAllocation_base a = nullptr
            \<and> FileCopyAllocation_base a \<noteq> buffer)
       \<and> heap (fst (FileCopyAllocation_ctor env w filename)) buffer = None
       \<and> reported (fst (FileCopyAllocation_ctor env w filename))
           = reported w @ [(''Read of '%s' failed (too few bytes read).'', filename)]
       \<and> format_message (''Read of '%s' failed (too few bytes read).'', filename)
           = ''Read of '' @ [CHR 0x27] @ filename @ [CHR 0x27]
               @ '' failed (too few bytes read).''"
  using assms(5)
  by (simp add: copy_ctor_short_read [OF assms] accessor_defs sys_fclose_def
      op_delete_array_def Report_def format_message_def)

theorem short_read_discards_buffer_witness:
  "files disk ''model.bin'' = Some [1, 2, 3]
   \<and> fread_limit (healthy\<lparr>fread_limit := 2\<rparr>) < length [1, 2, 3 :: byte]
   \<and> snd (FileCopyAllocation_ctor (healthy\<lparr>fread_limit := 2\<rparr>) disk ''model.bin'')
       = Inr \<lparr>copied_buffer = nullptr, copy_buffer_size_bytes = 3\<rparr>
   \<and> heap (fst (FileCopyAllocation_ctor (healthy\<lparr>fread_limit := 2\<rparr>) disk ''model.bin'')) 8192
       = None
   \<and> reported (fst (FileCopyAllocation_ctor (healthy\<lparr>fread_limit := 2\<rparr>) disk ''model.bin''))
       = [(''Read of '%s' failed (too few bytes read).'', ''model.bin'')]
   \<and> format_message (''Read of '%s' failed (too few bytes read).'', ''model.bin'')
       = ''Read of 'model.bin' failed (too few bytes read).''"
  using short_read_discards_buffer
    [of disk "''model.bin''" "[1, 2, 3]" "healthy\<lparr>fread_limit := 2\<rparr>" 3 8192]
  by (simp add: scenario_defs FileCopyAllocation_ctor_def platform_defs)

text \<open>
  Claim C5: destroying a mapped allocation unmaps the region if one was
  mapped and closes the descriptor if one was opened. The class has no
  destructor that would: after constructing over \<^verbatim>\<open>model.bin\<close> and destroying
  the object, the mapping is still established and descriptor \<open>3\<close> is still
  open; after a construction whose \<^verbatim>\<open>mmap\<close> failed, the descriptor is still
  open as well.
\<close>

theorem mmap_destruction_releases_nothing:
  "(let (w', a) = MMAPAllocation_ctor healthy disk ''model.bin'';
        w'' = MMAPAllocation_dtor w' a
    in MMAPAllocation_valid a
       \<and> mappings w'' (MMAPAllocation_base a) = Some [1, 2, 3]
       \<and> fd_table w'' 3 = Some [1, 2, 3])
   \<and> (let (w', a) = MMAPAllocation_ctor (healthy\<lparr>mmap_ret := MAP_FAILED\<rparr>) disk ''model.bin'';
           w'' = MMAPAllocation_dtor w' a
       in mmap_fd a = 3 \<and> fd_table w'' 3 = Some [1, 2, 3])"
  by (simp add: MMAPAllocation_ctor_def MMAPAllocation_dtor_def platform_defs accessor_defs
      scenario_defs)

text \<open>
  Claim C6: the copying constructor over an existing empty file, on a
  platform that opens it, answers \<^verbatim>\<open>fstat\<close> and allocates the (empty) array,
  yields a valid object with \<^verbatim>\<open>bytes()\<close> equal to \<open>0\<close>, and reports nothing.
\<close>

theorem empty_file_copy_is_valid:
  assumes "files w filename = Some []" and "open_grant env = Some f" and "fstat_ok env"
    and "new_ret env = Some buffer" and "buffer \<noteq> nullptr"
  shows "(\<exists>a. snd (FileCopyAllocation_ctor env w filename) = Inr a
            \<and> FileCopyAllocation_valid a
            \<and> FileCopyAllocation_bytes a = 0)
       \<and> reported (fst (FileCopyAllocation_ctor env w filename)) = reported w"
proof -
  have "length ([] :: byte list) \<le> fread_limit env" by simp
  from copy_ctor_success [OF assms this] assms(5) show ?thesis
    by (simp add: accessor_defs sys_fclose_def)
qed

theorem empty_file_copy_is_valid_witness:
  "files disk ''empty.bin'' = Some []
   \<and> snd (FileCopyAllocation_ctor healthy disk ''empty.bin'')
       = Inr \<lparr>copied_buffer = 8192, copy_buffer_size_bytes = 0\<rparr>
   \<and> FileCopyAllocation_valid \<lparr>copied_buffer = 8192, copy_buffer_size_bytes = 0\<rparr>
   \<and> FileCopyAllocation_bytes \<lparr>copied_buffer = 8192, copy_buffer_size_bytes = 0\<rparr> = 0"
  using empty_file_copy_is_valid [of disk "''empty.bin''" healthy 3 8192]
  by (simp add: scenario_defs FileCopyAllocation_ctor_def platform_defs accessor_defs)

text \<open>
  Claim C7: with \<open>fd\<close> what \<^verbatim>\<open>open\<close> returned and \<open>p\<close> what \<^verbatim>\<open>mmap\<close> returned (or
  would return) on it, a mapped allocation is valid exactly when the file
  was opened and \<open>p\<close> is not \<open>MAP_FAILED\<close>; then \<^verbatim>\<open>base()\<close> is \<open>p\<close> and a mapping
  is established there. When \<^verbatim>\<open>open\<close> fails, \<^verbatim>\<open>bytes()\<close> is \<open>0\<close>.
\<close>

theorem mmap_valid_iff_mapping_established:
  assumes "sys_open env w filename = (w1, fd)"
    and "sys_fstat env w1 fd = (rc, st_size)"
    and "sys_mmap env w1 st_size fd = (w2, p)"
    and "MMAPAllocation_ctor env w filename = (w', a)"
  shows "(MMAPAllocation_valid a \<longleftrightarrow> fd \<noteq> - 1 \<and> p \<noteq> MAP_FAILED)
       \<and> (MMAPAllocation_valid a \<longrightarrow>
            MMAPAllocation_base a = p \<and> w' = w2 \<and> mappings w' p \<noteq> None)
       \<and> (fd = - 1 \<longrightarrow> MMAPAllocation_bytes a = 0)"
  using assms
  by (auto simp: MMAPAllocation_ctor_def accessor_defs sys_mmap_def
      split: if_splits option.splits)

theorem mmap_valid_iff_mapping_established_witness:
  "sys_open healthy disk ''model.bin'' = (disk\<lparr>fd_table := [3 \<mapsto> [1, 2, 3]]\<rparr>, 3)
   \<and> MMAPAllocation_valid (snd (MMAPAllocation_ctor healthy disk ''model.bin''))
   \<and> MMAPAllocation_base (snd (MMAPAllocation_ctor healthy disk ''model.bin'')) = 4096
   \<and> mappings (fst (MMAPAllocation_ctor healthy disk ''model.bin'')) 4096 = Some [1, 2, 3]
   \<and> sys_open healthy disk ''missing.bin'' = (disk, - 1)
   \<and> \<not> MMAPAllocation_valid (snd (MMAPAllocation_ctor healthy disk ''missing.bin''))
   \<and> MMAPAllocation_bytes (snd (MMAPAllocation_ctor healthy disk ''missing.bin'')) = 0"
  using mmap_valid_iff_mapping_established
    [of healthy disk "''model.bin''" "disk\<lparr>fd_table := [3 \<mapsto> [1, 2, 3]]\<rparr>" 3 0 3
        "fst (MMAPAllocation_ctor healthy disk ''model.bin'')" 4096
        "fst (MMAPAllocation_ctor healthy disk ''model.bin'')"
        "snd (MMAPAllocation_ctor healthy disk ''model.bin'')"]
    mmap_valid_iff_mapping_established
    [of healthy disk "''missing.bin''" disk "- 1" "- 1" 7 disk MAP_FAILED
        "fst (MMAPAllocation_ctor healthy disk ''missing.bin'')"
        "snd (MMAPAllocation_ctor healthy disk ''missing.bin'')"]
  by (simp add: scenario_defs MMAPAllocation_ctor_def platform_defs accessor_defs)

text \<open>
  Claim C8: whatever way the copying constructor is left (size query
  failed, \<^verbatim>\<open>new\<close> threw or returned null, short read, success), the stream it
  opened is closed: the descriptor table afterwards is the one before,
  without the descriptor of the stream. When the open fails there is no
  stream and the table is unchanged. The object itself has no member that
  could hold a stream.
\<close>

theorem copy_ctor_closes_file:
  "fd_table (fst (FileCopyAllocation_ctor env w filename)) =
     (case snd (sys_fopen env w filename) of
        None \<Rightarrow> fd_table w
      | Some f \<Rightarrow> (fd_table w)(f := None))"
  by (simp add: FileCopyAllocation_ctor_def platform_defs Let_def
      split: option.splits prod.splits)

theorem copy_ctor_closes_file_witness:
  "fd_table (fst (sys_fopen healthy disk ''model.bin'')) 3 = Some [1, 2, 3]
   \<and> fd_table (fst (FileCopyAllocation_ctor healthy disk ''model.bin'')) = Map.empty
   \<and> fd_table (fst (FileCopyAllocation_ctor (healthy\<lparr>fstat_ok := False\<rparr>) disk ''model.bin''))
       = Map.empty
   \<and> fd_table (fst (FileCopyAllocation_ctor (healthy\<lparr>new_ret := None\<rparr>) disk ''model.bin''))
       = Map.empty
   \<and> fd_table (fst (FileCopyAllocation_ctor (healthy\<lparr>new_ret := Some nullptr\<rparr>) disk
                       ''model.bin''))
       = Map.empty
   \<and> fd_table (fst (FileCopyAllocation_ctor (healthy\<lparr>fread_limit := 2\<rparr>) disk ''model.bin''))
       = Map.empty"
  using copy_ctor_closes_file [of healthy disk "''model.bin''"]
    copy_ctor_closes_file [of "healthy\<lparr>fstat_ok := False\<rparr>" disk "''model.bin''"]
    copy_ctor_closes_file [of "healthy\<lparr>new_ret := None\<rparr>" disk "''model.bin''"]
    copy_ctor_closes_file [of "healthy\<lparr>new_ret := Some nullptr\<rparr>" disk "''model.bin''"]
    copy_ctor_closes_file [of "healthy\<lparr>fread_limit := 2\<rparr>" disk "''model.bin''"]
  by (simp add: sys_fopen_def disk_def healthy_def)

text \<open>
  The null test after \<^verbatim>\<open>new char[n]\<close> is the one way out on which the size
  determined can be \<open>0\<close> while the object is invalid: an allocator that
  returns null for the empty array of an empty file. \<^verbatim>\<open>new char[n]\<close> as the
  source writes it never returns null (it throws, and then there is no
  object), which is the hypothesis \<open>new_ret env \<noteq> Some nullptr\<close> below.
\<close>

lemma copy_ctor_new_null_empty_file:
  "snd (FileCopyAllocation_ctor (healthy\<lparr>new_ret := Some nullptr\<rparr>) disk ''empty.bin'')
     = Inr \<lparr>copied_buffer = nullptr, copy_buffer_size_bytes = 0\<rparr>"
  by (simp add: FileCopyAllocation_ctor_def platform_defs scenario_defs)

text \<open>
  Claim C9: with \<^verbatim>\<open>new char[n]\<close> not returning null, a copying constructor
  whose size query succeeded with \<open>st_size\<close> and whose read came short
  returns an object that is invalid and whose \<^verbatim>\<open>bytes()\<close> is \<open>st_size\<close>, not
  \<open>0\<close>; one whose open or size query failed returns an object that is invalid
  with \<^verbatim>\<open>bytes()\<close> equal to \<open>0\<close>; and for every invalid object returned,
  \<^verbatim>\<open>bytes()\<close> is \<open>0\<close> exactly when the open or the size query failed, and is the
  nonzero \<open>st_size\<close> when the size query succeeded.
\<close>

theorem copy_bytes_after_failure:
  assumes "new_ret env \<noteq> Some nullptr"
    and "sys_fopen env w filename = (w1, file)"
  shows "(\<forall>f st_size w2 buffer.
            file = Some f \<and> sys_fstat env w1 (fileno f) = (0, st_size)
            \<and> op_new_array env w1 st_size = Some (w2, buffer)
            \<and> snd (sys_fread env w2 buffer st_size f) \<noteq> st_size \<longrightarrow>
            (\<exists>a. snd (FileCopyAllocation_ctor env w filename) = Inr a
               \<and> \<not> FileCopyAllocation_valid a
               \<and> FileCopyAllocation_bytes a = st_size
               \<and> FileCopyAllocation_bytes a \<noteq> 0))
       \<and> (file = None \<or> (\<exists>f. file = Some f \<and> fst (sys_fstat env w1 (fileno f)) \<noteq> 0) \<longrightarrow>
            (\<exists>a. snd (FileCopyAllocation_ctor env w filename) = Inr a
               \<and> \<not> FileCopyAllocation_valid a
               \<and> FileCopyAllocation_bytes a = 0))
       \<and> (\<forall>a. snd (FileCopyAllocation_ctor env w filename) = Inr a
              \<and> \<not> FileCopyAllocation_valid a \<longrightarrow>
            (FileCopyAllocation_bytes a = 0 \<longleftrightarrow>
               file = None \<or> (\<exists>f. file = Some f \<and> fst (sys_fstat env w1 (fileno f)) \<noteq> 0))
            \<and> (\<forall>f st_size. file = Some f \<and> sys_fstat env w1 (fileno f) = (0, st_size) \<longrightarrow>
                  FileCopyAllocation_bytes a = st_size \<and> st_size \<noteq> 0))"
proof (intro conjI)
  show "\<forall>f st_size w2 buffer.
            file = Some f \<and> sys_fstat env w1 (fileno f) = (0, st_size)
            \<and> op_new_array env w1 st_size = Some (w2, buffer)
            \<and> snd (sys_fread env w2 buffer st_size f) \<noteq> st_size \<longrightarrow>
            (\<exists>a. snd (FileCopyAllocation_ctor env w filename) = Inr a
               \<and> \<not> FileCopyAllocation_valid a
               \<and> FileCopyAllocation_bytes a = st_size
               \<and> FileCopyAllocation_bytes a \<noteq> 0)"
    using assms
    by (auto simp: FileCopyAllocation_ctor_def platform_defs accessor_defs Let_def
        split: option.splits if_splits prod.splits)
next
  show "file = None \<or> (\<exists>f. file = Some f \<and> fst (sys_fstat env w1 (fileno f)) \<noteq> 0) \<longrightarrow>
            (\<exists>a. snd (FileCopyAllocation_ctor env w filename) = Inr a
               \<and> \<not> FileCopyAllocation_valid a
               \<and> FileCopyAllocation_bytes a = 0)"
    using assms
    by (auto simp: FileCopyAllocation_ctor_def platform_defs accessor_defs Let_def
        split: option.splits if_splits prod.splits)
next
  show "\<forall>a. snd (FileCopyAllocation_ctor env w filename) = Inr a
              \<and> \<not> FileCopyAllocation_valid a \<longrightarrow>
            (FileCopyAllocation_bytes a = 0 \<longleftrightarrow>
               file = None \<or> (\<exists>f. file = Some f \<and> fst (sys_fstat env w1 (fileno f)) \<noteq> 0))
            \<and> (\<forall>f st_size. file = Some f \<and> sys_fstat env w1 (fileno f) = (0, st_size) \<longrightarrow>
                  FileCopyAllocation_bytes a = st_size \<and> st_size \<noteq> 0)"
    using assms
    by (auto simp: FileCopyAllocation_ctor_def platform_defs accessor_defs Let_def
        split: option.splits if_splits prod.splits)
qed

theorem copy_bytes_after_failure_witness:
  "new_ret (healthy\<lparr>fread_limit := 2\<rparr>) \<noteq> Some nullptr
   \<and> sys_fopen (healthy\<lparr>fread_limit := 2\<rparr>) disk ''model.bin''
       = (disk\<lparr>fd_table := [3 \<mapsto> [1, 2, 3]]\<rparr>, Some 3)
   \<and> sys_fstat (healthy\<lparr>fread_limit := 2\<rparr>) (disk\<lparr>fd_table := [3 \<mapsto> [1, 2, 3]]\<rparr>) (fileno 3)
       = (0, 3)
   \<and> snd (sys_fread (healthy\<lparr>fread_limit := 2\<rparr>)
            (disk\<lparr>fd_table := [3 \<mapsto> [1, 2, 3]], heap := [8192 \<mapsto> [0, 0, 0]]\<rparr>) 8192 3 3) = 2
   \<and> snd (FileCopyAllocation_ctor (healthy\<lparr>fread_limit := 2\<rparr>) disk ''model.bin'')
       = Inr \<lparr>copied_buffer = nullptr, copy_buffer_size_bytes = 3\<rparr>
   \<and> \<not> FileCopyAllocation_valid \<lparr>copied_buffer = nullptr, copy_buffer_size_bytes = 3\<rparr>
   \<and> FileCopyAllocation_bytes \<lparr>copied_buffer = nullptr, copy_buffer_size_bytes = 3\<rparr> = 3
   \<and> new_ret (healthy\<lparr>fstat_ok := False\<rparr>) \<noteq> Some nullptr
   \<and> sys_fopen (healthy\<lparr>fstat_ok := False\<rparr>) disk ''model.bin''
       = (disk\<lparr>fd_table := [3 \<mapsto> [1, 2, 3]]\<rparr>, Some 3)
   \<and> sys_fstat (healthy\<lparr>fstat_ok := False\<rparr>) (disk\<lparr>fd_table := [3 \<mapsto> [1, 2, 3]]\<rparr>) (fileno 3)
       = (- 1, 7)
   \<and> snd (FileCopyAllocation_ctor (healthy\<lparr>fstat_ok := False\<rparr>) disk ''model.bin'')
       = Inr \<lparr>copied_buffer = nullptr, copy_buffer_size_bytes = 0\<rparr>
   \<and> \<not> FileCopyAllocation_valid \<lparr>copied_buffer = nullptr, copy_buffer_size_bytes = 0\<rparr>
   \<and> FileCopyAllocation_bytes \<lparr>copied_buffer = nullptr, copy_buffer_size_bytes = 0\<rparr> = 0"
  using copy_bytes_after_failure
    [of "healthy\<lparr>fread_limit := 2\<rparr>" disk "''model.bin''"
        "disk\<lparr>fd_table := [3 \<mapsto> [1, 2, 3]]\<rparr>" "Some 3"]
    copy_bytes_after_failure
    [of "healthy\<lparr>fstat_ok := False\<rparr>" disk "''model.bin''"
        "disk\<lparr>fd_table := [3 \<mapsto> [1, 2, 3]]\<rparr>" "Some 3"]
  by (simp add: scenario_defs FileCopyAllocation_ctor_def platform_defs accessor_defs)

text \<open>
  Claim C10: an invalid copied allocation has the null pointer as
  \<^verbatim>\<open>base()\<close>, an invalid mapped allocation has \<open>MAP_FAILED\<close>, and \<open>MAP_FAILED\<close>
  is not the null pointer.
\<close>

theorem invalid_base_sentinels:
  "(\<not> FileCopyAllocation_valid c \<longrightarrow> FileCopyAllocation_base c = nullptr)
   \<and> (\<not> MMAPAllocation_valid m \<longrightarrow> MMAPAllocation_base m = MAP_FAILED)
   \<and> MAP_FAILED \<noteq> nullptr"
  by (simp add: accessor_defs MAP_FAILED_def nullptr_def)

theorem invalid_base_sentinels_witness:
  "\<not> FileCopyAllocation_valid (projr (snd (FileCopyAllocation_ctor healthy disk ''missing.bin'')))
   \<and> FileCopyAllocation_base (projr (snd (FileCopyAllocation_ctor healthy disk ''missing.bin'')))
       = 0
   \<and> \<not> MMAPAllocation_valid (snd (MMAPAllocation_ctor healthy disk ''missing.bin''))
   \<and> MMAPAllocation_base (snd (MMAPAllocation_ctor healthy disk ''missing.bin''))
       = 18446744073709551615"
  using invalid_base_sentinels
    [of "projr (snd (FileCopyAllocation_ctor healthy disk ''missing.bin''))"
        "snd (MMAPAllocation_ctor healthy disk ''missing.bin'')"]
  by (simp add: scenario_defs FileCopyAllocation_ctor_def MMAPAllocation_ctor_def
      platform_defs accessor_defs)

end
